theory Spec2Isabelle
  imports Complex_Main
begin

section \<open>The cantilevered beam problem\<close>

text \<open>
  The repository is one Python class, \<^verbatim>\<open>CantileveredBeamProblem\<close>, with a constructor
  and two methods: \<^verbatim>\<open>evaluate_solution\<close> and \<^verbatim>\<open>random_solution\<close>.

  Conventions of the embedding:
  \<^item> Python floats are modelled as real numbers with exact arithmetic, plus the three
    non-finite values. Rounding error and silent overflow to infinity are not modelled;
    the one float operator of the method that raises, \<^verbatim>\<open>**\<close>, raises in the model
    when the exact power lies beyond the largest double.
  \<^item> The argument of \<^verbatim>\<open>evaluate_solution\<close> is dynamically typed. The universe of
    values is \<open>pyval\<close>: None, booleans, unbounded integers, floats, strings, lists and
    tuples. Objects of other classes are outside the model.
  \<^item> An exception that leaves the method is the value \<open>Inl e\<close>; a returned float is
    \<open>Inr r\<close>.
  \<^item> The object is a record, and a method returns its result together with the object
    as the call leaves it.
\<close>

subsection \<open>Values and exceptions\<close>

datatype pyerror = TypeError | ValueError | OverflowError | ZeroDivisionError | IndexError

datatype pyfloat = Fin real | PosInf | NegInf | NaN

datatype pyval =
    PNone
  | PBool bool
  | PInt int
  | PFloat pyfloat
  | PStr string
  | PList "pyval list"
  | PTuple "pyval list"

text \<open>\<^verbatim>\<open>isinstance(solution, (list, tuple))\<close>, with the items when it holds.\<close>

fun seq_items :: "pyval \<Rightarrow> pyval list option" where
  "seq_items (PList xs) = Some xs"
| "seq_items (PTuple xs) = Some xs"
| "seq_items PNone = None"
| "seq_items (PBool b) = None"
| "seq_items (PInt i) = None"
| "seq_items (PFloat f) = None"
| "seq_items (PStr s) = None"

text \<open>
  The numeric value of an operand: \<^verbatim>\<open>bool\<close> is a subclass of \<^verbatim>\<open>int\<close> (True is 1),
  an int is compared and combined with a float by its value. \<open>None\<close> for a value that
  is no number.
\<close>

fun num_of :: "pyval \<Rightarrow> pyfloat option" where
  "num_of (PBool b) = Some (Fin (if b then 1 else 0))"
| "num_of (PInt i) = Some (Fin (of_int i))"
| "num_of (PFloat f) = Some f"
| "num_of PNone = None"
| "num_of (PStr s) = None"
| "num_of (PList xs) = None"
| "num_of (PTuple xs) = None"

text \<open>Python 3 rounds a float to the nearest integer, a tie to the even one.\<close>

definition round_half_even :: "real \<Rightarrow> int" where
  "round_half_even r =
     (let f = \<lfloor>r\<rfloor>; d = r - of_int f
      in if d < 1 / 2 then f
         else if 1 / 2 < d then f + 1
         else if even f then f else f + 1)"

text \<open>
  \<^verbatim>\<open>int(round(x))\<close>: \<^verbatim>\<open>round\<close> raises TypeError on a value without
  \<^verbatim>\<open>__round__\<close>, ValueError on NaN and OverflowError on an infinity.
\<close>

fun int_round :: "pyval \<Rightarrow> pyerror + int" where
  "int_round (PBool b) = Inr (if b then 1 else 0)"
| "int_round (PInt i) = Inr i"
| "int_round (PFloat (Fin r)) = Inr (round_half_even r)"
| "int_round (PFloat NaN) = Inl ValueError"
| "int_round (PFloat PosInf) = Inl OverflowError"
| "int_round (PFloat NegInf) = Inl OverflowError"
| "int_round PNone = Inl TypeError"
| "int_round (PStr s) = Inl TypeError"
| "int_round (PList xs) = Inl TypeError"
| "int_round (PTuple xs) = Inl TypeError"

text \<open>
  \<^verbatim>\<open>lo <= x <= hi\<close> with float bounds. The comparison of a float with a value that
  is no number raises TypeError. For a number the test is false on NaN, on an infinity
  and outside the interval (\<open>Inr None\<close>); where it is true the operand is a finite
  number, and its value, which the arithmetic of the method then uses, comes back with
  the verdict (\<open>Inr (Some v)\<close>).
\<close>

definition chained_le :: "real \<times> real \<Rightarrow> pyval \<Rightarrow> pyerror + real option" where
  "chained_le bnd x =
     (case num_of x of
        None \<Rightarrow> Inl TypeError
      | Some NaN \<Rightarrow> Inr None
      | Some PosInf \<Rightarrow> Inr None
      | Some NegInf \<Rightarrow> Inr None
      | Some (Fin v) \<Rightarrow> Inr (if fst bnd \<le> v \<and> v \<le> snd bnd then Some v else None))"

text \<open>\<^verbatim>\<open>xs[i]\<close> on a list: a negative index counts from the end.\<close>

definition list_index :: "'a list \<Rightarrow> int \<Rightarrow> pyerror + 'a" where
  "list_index xs i =
     (if 0 \<le> i \<and> i < int (length xs) then Inr (xs ! nat i)
      else if i < 0 \<and> - int (length xs) \<le> i then Inr (xs ! nat (int (length xs) + i))
      else Inl IndexError)"

text \<open>
  Float \<^verbatim>\<open>x ** n\<close> with a small integer exponent: OverflowError when the result is
  out of the range of a double, whose largest value is \<open>(2 ^ 53 - 1) * 2 ^ 971\<close>.
\<close>

definition max_double :: real where
  "max_double = (2 ^ 53 - 1) * 2 ^ 971"

definition float_pow :: "real \<Rightarrow> nat \<Rightarrow> pyerror + real" where
  "float_pow x n = (if max_double < \<bar>x ^ n\<bar> then Inl OverflowError else Inr (x ^ n))"

text \<open>Float \<^verbatim>\<open>a / b\<close>: ZeroDivisionError on a zero divisor.\<close>

definition float_div :: "real \<Rightarrow> real \<Rightarrow> pyerror + real" where
  "float_div a b = (if b = 0 then Inl ZeroDivisionError else Inr (a / b))"

subsection \<open>The object\<close>

record bounds_dict =
  bounds_H :: "real \<times> real"
  bounds_h1 :: "int \<times> int"
  bounds_b1 :: "real \<times> real"
  bounds_b2 :: "real \<times> real"

record problem =
  P :: int
  E :: real
  L :: int
  possibleValues :: "real list"
  bounds :: bounds_dict

text \<open>\<^verbatim>\<open>__init__\<close>. The literal \<^verbatim>\<open>10e6\<close> is ten million.\<close>

definition init :: problem where
  "init =
     (let pv = [1 / 10, 26 / 100, 35 / 100, 1 / 2, 65 / 100, 75 / 100, 9 / 10, 1]
      in \<lparr> P = 1000, E = 10000000, L = 36, possibleValues = pv,
           bounds = \<lparr> bounds_H = (3, 7),
                      bounds_h1 = (0, int (length pv) - 1),
                      bounds_b1 = (2, 12),
                      bounds_b2 = (1 / 10, 2) \<rparr> \<rparr>)"

subsection \<open>evaluate_solution\<close>

definition PENALTY :: real where
  "PENALTY = 1000000000"

text \<open>
  The body of the \<^verbatim>\<open>try\<close> block (lines 93 to 95): \<open>term1\<close>, \<open>term2\<close> and their sum.
  The operands are the values of \<open>H\<close>, \<open>b1\<close> and \<open>b2\<close> that passed the bounds tests.
\<close>

definition moment_of_inertia :: "real \<Rightarrow> real \<Rightarrow> real \<Rightarrow> real \<Rightarrow> pyerror + real" where
  "moment_of_inertia Hv fh1 b1v b2v =
     (case float_pow (Hv - 2 * fh1) 3 of
        Inl e \<Rightarrow> Inl e
      | Inr web3 \<Rightarrow>
          let term1 = (1 / 12) * b2v * web3 in
          (case float_pow fh1 3 of
             Inl e \<Rightarrow> Inl e
           | Inr fh3 \<Rightarrow>
               (case float_pow (Hv - fh1) 2 of
                  Inl e \<Rightarrow> Inl e
                | Inr arm2 \<Rightarrow>
                    let term2 = 2 * ((1 / 12) * b1v * fh3 + (b1v * fh1 * arm2) / 4)
                    in Inr (term1 + term2))))"

text \<open>
  Lines 91 to 111, from the \<^verbatim>\<open>try\<close> block to the final \<^verbatim>\<open>return\<close>: the handler turns
  any exception of the block into the penalty; the two divisions stand outside it.
\<close>

definition constraints_and_volume ::
  "problem \<Rightarrow> real \<Rightarrow> real \<Rightarrow> real \<Rightarrow> real \<Rightarrow> (pyerror + real) \<times> problem" where
  "constraints_and_volume self Hv fh1 b1v b2v =
     (case moment_of_inertia Hv fh1 b1v b2v of
        Inl e \<Rightarrow> (Inr PENALTY, self)
      | Inr I \<Rightarrow>
          if I \<le> 0 then (Inr PENALTY, self)
          else
            (case float_div (of_int (P self * L self) * Hv) (2 * I) of
               Inl e \<Rightarrow> (Inl e, self)
             | Inr g1 \<Rightarrow>
                 (case float_div (of_int (P self * L self ^ 3)) (3 * E self * I) of
                    Inl e \<Rightarrow> (Inl e, self)
                  | Inr g2 \<Rightarrow>
                      if 5000 < g1 \<or> 1 / 10 < g2 then (Inr PENALTY, self)
                      else
                        let volume = (2 * fh1 * b1v + (Hv - 2 * fh1) * b2v) * of_int (L self)
                        in (Inr volume, self))))"

text \<open>
  The method, lines 70 to 89, continued by \<open>constraints_and_volume\<close>. The order of the
  source is kept: container and length, rounding of \<open>h1\<close> and its range, the table
  lookup, then the bounds of \<open>H\<close>, \<open>b1\<close> and \<open>b2\<close>, each reached only when the tests
  before it passed.
\<close>

definition evaluate_solution :: "problem \<Rightarrow> pyval \<Rightarrow> (pyerror + real) \<times> problem" where
  "evaluate_solution self solution =
     (case seq_items solution of
        None \<Rightarrow> (Inr PENALTY, self)
      | Some xs \<Rightarrow>
          if length xs \<noteq> 4 then (Inr PENALTY, self)
          else
            let H = xs ! 0 in
            (case int_round (xs ! 1) of
               Inl e \<Rightarrow> (Inl e, self)
             | Inr h1 \<Rightarrow>
                 if h1 < fst (bounds_h1 (bounds self)) \<or> snd (bounds_h1 (bounds self)) < h1
                 then (Inr PENALTY, self)
                 else
                   (case list_index (possibleValues self) h1 of
                      Inl e \<Rightarrow> (Inl e, self)
                    | Inr fh1 \<Rightarrow>
                        let b1 = xs ! 2; b2 = xs ! 3 in
                        (case chained_le (bounds_H (bounds self)) H of
                           Inl e \<Rightarrow> (Inl e, self)
                         | Inr None \<Rightarrow> (Inr PENALTY, self)
                         | Inr (Some Hv) \<Rightarrow>
                             (case chained_le (bounds_b1 (bounds self)) b1 of
                                Inl e \<Rightarrow> (Inl e, self)
                              | Inr None \<Rightarrow> (Inr PENALTY, self)
                              | Inr (Some b1v) \<Rightarrow>
                                  (case chained_le (bounds_b2 (bounds self)) b2 of
                                     Inl e \<Rightarrow> (Inl e, self)
                                   | Inr None \<Rightarrow> (Inr PENALTY, self)
                                   | Inr (Some b2v) \<Rightarrow>
                                       constraints_and_volume self Hv fh1 b1v b2v))))))"

subsection \<open>random_solution\<close>

text \<open>
  The standard library's generator is the one source of the method's values. Its
  draws are arguments of the model: \<^verbatim>\<open>random.uniform(a, b)\<close> is
  \<^verbatim>\<open>a + (b - a) * random()\<close> with \<^verbatim>\<open>random()\<close> in the half-open unit interval, and
  \<^verbatim>\<open>random.randint(a, b)\<close> is \<open>a\<close> plus a number below \<open>b - a + 1\<close>.
\<close>

record draws =
  draw_H :: real
  draw_h1 :: nat
  draw_b1 :: real
  draw_b2 :: real

definition uniform :: "real \<times> real \<Rightarrow> real \<Rightarrow> real" where
  "uniform bnd u = fst bnd + (snd bnd - fst bnd) * u"

definition randint :: "int \<times> int \<Rightarrow> nat \<Rightarrow> int" where
  "randint bnd n = fst bnd + int n"

definition valid_draws :: "problem \<Rightarrow> draws \<Rightarrow> bool" where
  "valid_draws self d =
     (0 \<le> draw_H d \<and> draw_H d < 1 \<and>
      int (draw_h1 d) < snd (bounds_h1 (bounds self)) - fst (bounds_h1 (bounds self)) + 1 \<and>
      0 \<le> draw_b1 d \<and> draw_b1 d < 1 \<and>
      0 \<le> draw_b2 d \<and> draw_b2 d < 1)"

definition random_solution :: "problem \<Rightarrow> draws \<Rightarrow> pyval \<times> problem" where
  "random_solution self d =
     (let H = uniform (bounds_H (bounds self)) (draw_H d);
          h1 = randint (bounds_h1 (bounds self)) (draw_h1 d);
          b1 = uniform (bounds_b1 (bounds self)) (draw_b1 d);
          b2 = uniform (bounds_b2 (bounds self)) (draw_b2 d)
      in (PList [PFloat (Fin H), PInt h1, PFloat (Fin b1), PFloat (Fin b2)], self))"

subsection \<open>The specification's formulas\<close>

text \<open>
  The definitions of this subsection follow the words of the specification, not the
  code: the lookup table, the moment of inertia, the two constraint functions and the
  volume, with the constants \<open>P = 1000\<close>, \<open>E = 1e7\<close> and \<open>L = 36\<close> written in. The
  theorems compare the method with them.
\<close>

definition spec_table :: "real list" where
  "spec_table = [1 / 10, 26 / 100, 35 / 100, 1 / 2, 65 / 100, 75 / 100, 9 / 10, 1]"

definition spec_I :: "real \<Rightarrow> real \<Rightarrow> real \<Rightarrow> real \<Rightarrow> real" where
  "spec_I h fh w1 w2 =
     (1 / 12) * w2 * (h - 2 * fh) ^ 3 + 2 * ((1 / 12) * w1 * fh ^ 3 + w1 * fh * (h - fh) ^ 2 / 4)"

definition spec_g1 :: "real \<Rightarrow> real \<Rightarrow> real" where
  "spec_g1 h I = 1000 * 36 * h / (2 * I)"

definition spec_g2 :: "real \<Rightarrow> real" where
  "spec_g2 I = 1000 * 36 ^ 3 / (3 * 10000000 * I)"

definition spec_volume :: "real \<Rightarrow> real \<Rightarrow> real \<Rightarrow> real \<Rightarrow> real" where
  "spec_volume h fh w1 w2 = (2 * fh * w1 + (h - 2 * fh) * w2) * 36"

text \<open>
  A candidate's element as the specification reads it: \<open>numeric\<close> for an int, a bool
  or a float of any kind, \<open>real_val\<close> for the real number it stands for, which NaN and
  the infinities do not have.
\<close>

definition numeric :: "pyval \<Rightarrow> bool" where
  "numeric x = (case num_of x of Some f \<Rightarrow> True | None \<Rightarrow> False)"

definition real_val :: "pyval \<Rightarrow> real option" where
  "real_val x = (case num_of x of Some (Fin v) \<Rightarrow> Some v | _ \<Rightarrow> None)"

text \<open>
  A four-element candidate of numbers: \<open>H\<close>, \<open>b1\<close> and \<open>b2\<close> are numeric, and \<open>h1\<close>
  is a number that \<^verbatim>\<open>round\<close> accepts (an int, a bool or a finite float).
\<close>

definition number_candidate :: "pyval list \<Rightarrow> bool" where
  "number_candidate xs =
     (numeric (xs ! 0) \<and> \<not> isl (int_round (xs ! 1)) \<and> numeric (xs ! 2) \<and> numeric (xs ! 3))"

text \<open>An element that stands for a real number of the closed interval from \<open>lo\<close> to \<open>hi\<close>.\<close>

definition inside :: "real \<Rightarrow> real \<Rightarrow> pyval \<Rightarrow> bool" where
  "inside lo hi x = (case real_val x of Some v \<Rightarrow> lo \<le> v \<and> v \<le> hi | None \<Rightarrow> False)"

section \<open>Properties\<close>

subsection \<open>The operations\<close>

lemma chained_le_Some:
  "chained_le (lo, hi) x = Inr (Some v) \<longleftrightarrow> real_val x = Some v \<and> lo \<le> v \<and> v \<le> hi"
  by (auto simp: chained_le_def real_val_def split: option.splits pyfloat.splits)

lemma chained_le_None:
  "chained_le (lo, hi) x = Inr None \<longleftrightarrow>
     numeric x \<and> (\<forall>v. real_val x = Some v \<longrightarrow> \<not> (lo \<le> v \<and> v \<le> hi))"
  by (auto simp: chained_le_def real_val_def numeric_def split: option.splits pyfloat.splits)

lemma chained_le_error:
  "chained_le bnd x = Inl e \<longleftrightarrow> \<not> numeric x \<and> e = TypeError"
  by (auto simp: chained_le_def numeric_def split: option.splits pyfloat.splits)

lemma chained_le_cases:
  obtains (error) "chained_le (lo, hi) x = Inl TypeError" "\<not> numeric x"
  | (outside) "chained_le (lo, hi) x = Inr None" "numeric x"
      "\<And>v. real_val x = Some v \<Longrightarrow> \<not> (lo \<le> v \<and> v \<le> hi)"
  | (inside) v where "chained_le (lo, hi) x = Inr (Some v)" "numeric x" "real_val x = Some v"
      "lo \<le> v" "v \<le> hi"
proof (cases "chained_le (lo, hi) x")
  case (Inl e)
  then show ?thesis using error by (simp add: chained_le_error)
next
  case (Inr res)
  show ?thesis
  proof (cases res)
    case None
    then show ?thesis using Inr outside by (simp add: chained_le_None)
  next
    case (Some v)
    then have "chained_le (lo, hi) x = Inr (Some v)" using Inr by simp
    moreover from this have "real_val x = Some v \<and> lo \<le> v \<and> v \<le> hi"
      by (simp add: chained_le_Some)
    moreover from this have "numeric x"
      by (auto simp: real_val_def numeric_def split: option.splits)
    ultimately show ?thesis using inside by blast
  qed
qed



lemmas eval_defs = evaluate_solution_def init_def chained_le_def list_index_def
  constraints_and_volume_def moment_of_inertia_def float_pow_def float_div_def max_double_def
  PENALTY_def Let_def

lemma init_fields:
  "P init = 1000" "E init = 10000000" "L init = 36" "possibleValues init = spec_table"
  "bounds_H (bounds init) = (3, 7)" "bounds_h1 (bounds init) = (0, 7)"
  "bounds_b1 (bounds init) = (2, 12)" "bounds_b2 (bounds init) = (1 / 10, 2)"
  by (simp_all add: init_def spec_table_def Let_def)

lemma index_cases:
  assumes "0 \<le> k" "k \<le> (7::int)"
  shows "k = 0 \<or> k = 1 \<or> k = 2 \<or> k = 3 \<or> k = 4 \<or> k = 5 \<or> k = 6 \<or> k = 7"
  using assms by arith

lemma table_lookup:
  assumes "0 \<le> k" "k \<le> 7"
  shows "list_index (possibleValues init) k = Inr (spec_table ! nat k)"
    and "1 / 10 \<le> spec_table ! nat k" and "spec_table ! nat k \<le> 1"
  using index_cases [OF assms]
  by (auto simp: list_index_def init_def spec_table_def Let_def)

lemma float_pow_small:
  fixes x :: real
  assumes "0 \<le> x" "x \<le> 7" "n \<le> 3"
  shows "float_pow x n = Inr (x ^ n)"
proof -
  have "\<bar>x ^ n\<bar> \<le> 7 ^ n" using assms by (simp add: power_mono)
  also have "(7::real) ^ n \<le> 7 ^ 3" using assms by (intro power_increasing) auto
  also have "(7::real) ^ 3 \<le> max_double" by (simp add: max_double_def)
  finally show ?thesis by (simp add: float_pow_def)
qed

subsection \<open>Inertia and volume inside the bounds\<close>

lemma moment_of_inertia_in_bounds:
  assumes "3 \<le> h" "h \<le> 7" "1 / 10 \<le> fh" "fh \<le> 1"
  shows "moment_of_inertia h fh w1 w2 = Inr (spec_I h fh w1 w2)"
proof -
  have a: "float_pow (h - 2 * fh) 3 = Inr ((h - 2 * fh) ^ 3)"
    using assms by (intro float_pow_small) auto
  have b: "float_pow fh 3 = Inr (fh ^ 3)"
    using assms by (intro float_pow_small) auto
  have c: "float_pow (h - fh) 2 = Inr ((h - fh) ^ 2)"
    using assms by (intro float_pow_small) auto
  show ?thesis by (simp add: moment_of_inertia_def a b c spec_I_def)
qed

lemma spec_I_pos:
  assumes "3 \<le> h" "1 / 10 \<le> fh" "fh \<le> 1" "2 \<le> w1" "1 / 10 \<le> w2"
  shows "0 < spec_I h fh w1 w2"
proof -
  have web: "0 < h - 2 * fh" using assms by simp
  have t1: "0 < (1 / 12) * w2 * (h - 2 * fh) ^ 3"
    using assms web by simp
  have t2: "0 \<le> (1 / 12) * w1 * fh ^ 3" using assms by simp
  have t3: "0 \<le> w1 * fh * (h - fh) ^ 2 / 4" using assms by simp
  have t23: "0 \<le> 2 * ((1 / 12) * w1 * fh ^ 3 + w1 * fh * (h - fh) ^ 2 / 4)"
    by (rule mult_nonneg_nonneg [OF _ add_nonneg_nonneg [OF t2 t3]]) simp
  show ?thesis unfolding spec_I_def using t1 t23 by (rule add_pos_nonneg)
qed

lemma spec_volume_bounds:
  assumes "3 \<le> h" "h \<le> 7" "1 / 10 \<le> fh" "fh \<le> 1" "2 \<le> w1" "w1 \<le> 12"
    "1 / 10 \<le> w2" "w2 \<le> 2"
  shows "0 < spec_volume h fh w1 w2" and "spec_volume h fh w1 w2 \<le> 13536 / 10"
proof -
  have flange: "0 < fh * w1" using assms by simp
  have flange_le: "fh * w1 \<le> 1 * 12" using assms by (intro mult_mono) auto
  have web: "0 < (h - 2 * fh) * w2" using assms by simp
  have web_le: "(h - 2 * fh) * w2 \<le> (68 / 10) * 2" using assms by (intro mult_mono) auto
  show "0 < spec_volume h fh w1 w2" unfolding spec_volume_def using flange web by simp
  show "spec_volume h fh w1 w2 \<le> 13536 / 10" unfolding spec_volume_def
    using flange_le web_le by simp
qed

subsection \<open>The method inside the bounds\<close>

lemma constraints_and_volume_in_bounds:
  assumes "3 \<le> h" "h \<le> 7" "1 / 10 \<le> fh" "fh \<le> 1" "2 \<le> w1" "w1 \<le> 12"
    "1 / 10 \<le> w2" "w2 \<le> 2"
  shows "constraints_and_volume init h fh w1 w2 =
     (Inr (if 5000 < spec_g1 h (spec_I h fh w1 w2) \<or> 1 / 10 < spec_g2 (spec_I h fh w1 w2)
           then PENALTY else spec_volume h fh w1 w2), init)"
proof -
  have I: "moment_of_inertia h fh w1 w2 = Inr (spec_I h fh w1 w2)"
    using assms by (intro moment_of_inertia_in_bounds)
  have pos: "0 < spec_I h fh w1 w2"
    using assms by (intro spec_I_pos)
  show ?thesis
    using pos
    by (simp add: constraints_and_volume_def I init_fields float_div_def spec_g1_def spec_g2_def
        spec_volume_def Let_def)
qed

lemma length_four:
  assumes "length xs = 4"
  obtains a b c d where "xs = [a, b, c, d]"
  using assms by (auto simp: numeral_eq_Suc length_Suc_conv)

lemma evaluate_solution_in_bounds:
  assumes "seq_items solution = Some [H, x1, B1, B2]"
    and "int_round x1 = Inr k" "0 \<le> k" "k \<le> 7"
    and "real_val H = Some h" "3 \<le> h" "h \<le> 7"
    and "real_val B1 = Some w1" "2 \<le> w1" "w1 \<le> 12"
    and "real_val B2 = Some w2" "1 / 10 \<le> w2" "w2 \<le> 2"
  shows "evaluate_solution init solution =
     constraints_and_volume init h (spec_table ! nat k) w1 w2"
proof -
  have cH: "chained_le (3, 7) H = Inr (Some h)"
    using assms by (simp add: chained_le_Some)
  have c1: "chained_le (2, 12) B1 = Inr (Some w1)"
    using assms by (simp add: chained_le_Some)
  have c2: "chained_le (1 / 10, 2) B2 = Inr (Some w2)"
    using assms by (simp add: chained_le_Some)
  have t: "list_index spec_table k = Inr (spec_table ! nat k)"
    using table_lookup(1) [OF assms(3,4)] by (simp add: init_fields)
  show ?thesis
    using assms(1,2,3,4)
    by (simp add: evaluate_solution_def init_fields cH c1 c2 t)
qed

lemma evaluate_solution_init_cases:
  obtains (penalty) "evaluate_solution init solution = (Inr PENALTY, init)"
  | (raises) e xs where "evaluate_solution init solution = (Inl e, init)"
      "seq_items solution = Some xs" "length xs = 4" "\<not> number_candidate xs"
  | (checked) H x1 B1 B2 k h w1 w2 where
      "seq_items solution = Some [H, x1, B1, B2]"
      "int_round x1 = Inr k" "0 \<le> k" "k \<le> 7"
      "real_val H = Some h" "3 \<le> h" "h \<le> 7"
      "real_val B1 = Some w1" "2 \<le> w1" "w1 \<le> 12"
      "real_val B2 = Some w2" "1 / 10 \<le> w2" "w2 \<le> 2"
proof (cases "seq_items solution")
  case None
  then show ?thesis using penalty by (simp add: evaluate_solution_def)
next
  case (Some xs)
  show ?thesis
  proof (cases "length xs = 4")
    case False
    with Some show ?thesis using penalty by (simp add: evaluate_solution_def)
  next
    case True
    then obtain H x1 B1 B2 where xs: "xs = [H, x1, B1, B2]"
      by (rule length_four)
    have items: "seq_items solution = Some [H, x1, B1, B2]"
      using Some by (simp add: xs)
    have len: "length [H, x1, B1, B2] = 4" by simp
    note bad = raises [OF _ items len]
    show ?thesis
    proof (cases "int_round x1")
      case (Inl e)
      then show ?thesis using bad items
        by (simp add: evaluate_solution_def number_candidate_def)
    next
      case (Inr k)
      show ?thesis
      proof (cases "k < 0 \<or> 7 < k")
        case True
        then show ?thesis using penalty items Inr
          by (auto simp: evaluate_solution_def init_fields)
      next
        case False
        then have kr: "0 \<le> k" "k \<le> 7" by auto
        have tl: "list_index spec_table k = Inr (spec_table ! nat k)"
          using table_lookup(1) [OF kr] by (simp add: init_fields)
        note start = evaluate_solution_def init_fields tl items Inr
        show ?thesis
        proof (cases "3::real" "7::real" H rule: chained_le_cases)
          case error
          then show ?thesis using bad kr by (simp add: start number_candidate_def)
        next
          case outside
          then show ?thesis using penalty kr by (simp add: start)
        next
          case h: (inside h)
          show ?thesis
          proof (cases "2::real" "12::real" B1 rule: chained_le_cases)
            case error
            then show ?thesis using bad kr by (simp add: start h number_candidate_def)
          next
            case outside
            then show ?thesis using penalty kr by (simp add: start h)
          next
            case w1: (inside w1)
            show ?thesis
            proof (cases "1 / 10 :: real" "2::real" B2 rule: chained_le_cases)
              case error
              then show ?thesis using bad kr by (simp add: start h w1 number_candidate_def)
            next
              case outside
              then show ?thesis using penalty kr by (simp add: start h w1)
            next
              case w2: (inside w2)
              show ?thesis
                using checked [OF items Inr kr h(3,4,5) w1(3,4,5) w2(3,4,5)] .
            qed
          qed
        qed
      qed
    qed
  qed
qed

subsection \<open>The object after a call\<close>



section \<open>The claims\<close>

subsection \<open>C1: the method returns on every input\<close>




subsection \<open>C2: inputs that fail the arity and type check\<close>




subsection \<open>C3: the volume of a feasible candidate\<close>



subsection \<open>C4: the penalty of the constraints\<close>



subsection \<open>C5: the penalty outside the bounds\<close>




subsection \<open>C6: random_solution stays inside the bounds\<close>

text \<open>
  C6: a candidate that \<open>random_solution\<close> returns is a list of four elements, \<open>H\<close> in
  \<open>[3, 7]\<close>, \<open>h1\<close> an integer of 0..7, \<open>b1\<close> in \<open>[2, 12]\<close> and \<open>b2\<close> in \<open>[0.1, 2]\<close>;
  \<open>evaluate_solution\<close> passes it through the arity, range and bounds checks to the
  constraints, which may still give the penalty.
\<close>

theorem random_solution_in_bounds:
  assumes "valid_draws init d"
  shows "\<exists>H h1 b1 b2.
     random_solution init d = (PList [PFloat (Fin H), PInt h1, PFloat (Fin b1), PFloat (Fin b2)], init) \<and>
     3 \<le> H \<and> H \<le> 7 \<and> 0 \<le> h1 \<and> h1 \<le> 7 \<and> 2 \<le> b1 \<and> b1 \<le> 12 \<and> 1 / 10 \<le> b2 \<and> b2 \<le> 2 \<and>
     evaluate_solution init (fst (random_solution init d)) =
       constraints_and_volume init H (spec_table ! nat h1) b1 b2"
proof -
  define H where "H = uniform (3, 7) (draw_H d)"
  define h1 where "h1 = randint (0, 7) (draw_h1 d)"
  define b1 where "b1 = uniform (2, 12) (draw_b1 d)"
  define b2 where "b2 = uniform (1 / 10, 2) (draw_b2 d)"
  have d: "0 \<le> draw_H d" "draw_H d < 1" "draw_h1 d < 8" "0 \<le> draw_b1 d" "draw_b1 d < 1"
    "0 \<le> draw_b2 d" "draw_b2 d < 1"
    using assms by (simp_all add: valid_draws_def init_fields)
  have bH: "3 \<le> H" "H \<le> 7" using d by (simp_all add: H_def uniform_def)
  have bh: "0 \<le> h1" "h1 \<le> 7" using d by (simp_all add: h1_def randint_def)
  have b1: "2 \<le> b1" "b1 \<le> 12" using d by (simp_all add: b1_def uniform_def)
  have b2: "1 / 10 \<le> b2" "b2 \<le> 2" using d by (simp_all add: b2_def uniform_def)
  have sol: "random_solution init d =
      (PList [PFloat (Fin H), PInt h1, PFloat (Fin b1), PFloat (Fin b2)], init)"
    by (simp add: random_solution_def init_fields H_def h1_def b1_def b2_def)
  have "evaluate_solution init (PList [PFloat (Fin H), PInt h1, PFloat (Fin b1), PFloat (Fin b2)]) =
      constraints_and_volume init H (spec_table ! nat h1) b1 b2"
    using bH bh b1 b2
    by (intro evaluate_solution_in_bounds [of _ "PFloat (Fin H)" "PInt h1" "PFloat (Fin b1)"
          "PFloat (Fin b2)" h1 H b1 b2])
      (simp_all add: real_val_def)
  then show ?thesis using sol bH bh b1 b2 by auto
qed

text \<open>
  An instance of C6: when every draw is 0 the sample is \<^verbatim>\<open>[3.0, 0, 2.0, 0.1]\<close>; it
  passes the checks and receives the penalty from the bending stress.
\<close>

theorem random_solution_in_bounds_witness:
  "valid_draws init \<lparr>draw_H = 0, draw_h1 = 0, draw_b1 = 0, draw_b2 = 0\<rparr> \<and>
   random_solution init \<lparr>draw_H = 0, draw_h1 = 0, draw_b1 = 0, draw_b2 = 0\<rparr> =
     (PList [PFloat (Fin 3), PInt 0, PFloat (Fin 2), PFloat (Fin (1 / 10))], init) \<and>
   evaluate_solution init
     (fst (random_solution init \<lparr>draw_H = 0, draw_h1 = 0, draw_b1 = 0, draw_b2 = 0\<rparr>)) =
     constraints_and_volume init 3 (1 / 10) 2 (1 / 10) \<and>
   constraints_and_volume init 3 (1 / 10) 2 (1 / 10) = (Inr PENALTY, init)"
proof -
  have v: "valid_draws init \<lparr>draw_H = 0, draw_h1 = 0, draw_b1 = 0, draw_b2 = 0\<rparr>"
    by (simp add: valid_draws_def init_fields)
  have s: "random_solution init \<lparr>draw_H = 0, draw_h1 = 0, draw_b1 = 0, draw_b2 = 0\<rparr> =
     (PList [PFloat (Fin 3), PInt 0, PFloat (Fin 2), PFloat (Fin (1 / 10))], init)"
    by (simp add: random_solution_def init_fields uniform_def randint_def)
  have p: "constraints_and_volume init 3 (1 / 10) 2 (1 / 10) = (Inr PENALTY, init)"
    by (simp add: eval_defs power_divide)
  from random_solution_in_bounds [OF v] obtain H h1 b1 b2 where
    r: "random_solution init \<lparr>draw_H = 0, draw_h1 = 0, draw_b1 = 0, draw_b2 = 0\<rparr> =
          (PList [PFloat (Fin H), PInt h1, PFloat (Fin b1), PFloat (Fin b2)], init)" and
    e: "evaluate_solution init
          (fst (random_solution init \<lparr>draw_H = 0, draw_h1 = 0, draw_b1 = 0, draw_b2 = 0\<rparr>)) =
        constraints_and_volume init H (spec_table ! nat h1) b1 b2"
    by blast
  from r s have "H = 3" "h1 = 0" "b1 = 2" "b2 = 1 / 10" by simp_all
  with e have "evaluate_solution init
      (fst (random_solution init \<lparr>draw_H = 0, draw_h1 = 0, draw_b1 = 0, draw_b2 = 0\<rparr>)) =
      constraints_and_volume init 3 (1 / 10) 2 (1 / 10)"
    by (simp add: spec_table_def)
  then show ?thesis using v s p by simp
qed

subsection \<open>C7: evaluate_solution is deterministic and changes nothing\<close>



subsection \<open>C8: the candidate [5.0, 7, 5.0, 1.0]\<close>

text \<open>
  C8: for the candidate \<^verbatim>\<open>[5.0, 7, 5.0, 1.0]\<close> the flange height is 1.0, the moment of
  inertia is \<open>517 / 12\<close>, both constraints hold (\<open>g1 \<le> 5000\<close>, \<open>g2 \<le> 0.10\<close>), and
  \<open>evaluate_solution\<close> returns the volume \<open>(2 * 1.0 * 5.0 + (5.0 - 2.0) * 1.0) * 36 = 468\<close>.
\<close>

theorem example_candidate:
  "list_index (possibleValues init) 7 = Inr 1 \<and>
   moment_of_inertia 5 1 5 1 = Inr (517 / 12) \<and>
   float_div (of_int (P init * L init) * 5) (2 * (517 / 12)) = Inr (1080000 / 517) \<and>
   (1080000 / 517 :: real) \<le> 5000 \<and>
   float_div (of_int (P init * L init ^ 3)) (3 * E init * (517 / 12)) = Inr (46656 / 1292500) \<and>
   (46656 / 1292500 :: real) \<le> 1 / 10 \<and>
   fst (evaluate_solution init
      (PList [PFloat (Fin 5), PInt 7, PFloat (Fin 5), PFloat (Fin 1)])) = Inr 468 \<and>
   (2 * 1 * 5 + (5 - 2) * 1) * 36 = (468::real)"
  by (simp add: eval_defs)

subsection \<open>C9: the moment of inertia is positive inside the bounds\<close>

text \<open>
  C9: when the \<open>h1\<close> check and the three bounds checks of the method pass, then
  \<open>H \<ge> 3\<close>, \<open>fh1 \<le> 1\<close>, \<open>b1 \<ge> 2\<close>, \<open>b2 \<ge> 0.1\<close>, so \<open>H - 2 * fh1 \<ge> 1\<close>, the \<^verbatim>\<open>try\<close>
  block computes a moment of inertia, and it is strictly positive: the branch
  \<^verbatim>\<open>I <= 0\<close> is not taken.
\<close>

theorem inertia_positive:
  assumes "int_round x1 = Inr k"
    and "\<not> (k < fst (bounds_h1 (bounds init)) \<or> snd (bounds_h1 (bounds init)) < k)"
    and "list_index (possibleValues init) k = Inr fh1"
    and "chained_le (bounds_H (bounds init)) H = Inr (Some h)"
    and "chained_le (bounds_b1 (bounds init)) B1 = Inr (Some w1)"
    and "chained_le (bounds_b2 (bounds init)) B2 = Inr (Some w2)"
  shows "3 \<le> h \<and> fh1 \<le> 1 \<and> 2 \<le> w1 \<and> 1 / 10 \<le> w2 \<and> 1 \<le> h - 2 * fh1 \<and>
         (\<exists>I. moment_of_inertia h fh1 w1 w2 = Inr I \<and> 0 < I)"
proof -
  have kr: "0 \<le> k" "k \<le> 7" using assms(2) by (simp_all add: init_fields)
  note t = table_lookup [OF kr]
  have fh: "fh1 = spec_table ! nat k" using t(1) assms(3) by simp
  have h: "3 \<le> h" "h \<le> 7" using assms(4) by (simp_all add: init_fields chained_le_Some)
  have w1: "2 \<le> w1" using assms(5) by (simp add: init_fields chained_le_Some)
  have w2: "1 / 10 \<le> w2" using assms(6) by (simp add: init_fields chained_le_Some)
  have f: "1 / 10 \<le> fh1" "fh1 \<le> 1" using t(2,3) fh by simp_all
  have I: "moment_of_inertia h fh1 w1 w2 = Inr (spec_I h fh1 w1 w2)"
    using h f by (rule moment_of_inertia_in_bounds)
  have pos: "0 < spec_I h fh1 w1 w2"
    using h(1) f w1 w2 by (rule spec_I_pos)
  show ?thesis using h f w1 w2 I pos by simp
qed

text \<open>
  An instance of C9: the smallest section, \<^verbatim>\<open>[3.0, 0, 2, 0.1]\<close>, has the inertia
  \<open>3841 / 3750\<close>.
\<close>

theorem inertia_positive_witness:
  "moment_of_inertia 3 (1 / 10) 2 (1 / 10) = Inr (3841 / 3750) \<and> (0::real) < 3841 / 3750 \<and>
   (1::real) \<le> 3 - 2 * (1 / 10)"
proof -
  have "\<exists>I. moment_of_inertia 3 (1 / 10) 2 (1 / 10) = Inr I \<and> 0 < I"
    using inertia_positive [of "PInt 0" 0 "1 / 10" "PFloat (Fin 3)" 3 "PInt 2" 2
        "PFloat (Fin (1 / 10))" "1 / 10"]
    by (simp add: init_fields chained_le_def list_index_def spec_table_def)
  moreover have "moment_of_inertia 3 (1 / 10) 2 (1 / 10) = Inr (3841 / 3750)"
    by (simp add: moment_of_inertia_def float_pow_def max_double_def power2_eq_square power3_eq_cube)
  ultimately show ?thesis by simp
qed

subsection \<open>C10: the penalty and the volumes are apart\<close>

text \<open>
  C10: whenever \<open>evaluate_solution\<close> returns, the result is exactly \<open>1e9\<close> or a
  strictly positive volume of at most \<open>(2 * 1.0 * 12.0 + (7.0 - 0.2) * 2.0) * 36 = 1353.6\<close>,
  which is below the penalty.
\<close>

theorem result_is_penalty_or_volume:
  assumes "fst (evaluate_solution init solution) = Inr r"
  shows "(r = PENALTY \<or> (0 < r \<and> r \<le> 13536 / 10)) \<and> 13536 / 10 < PENALTY"
proof (cases solution rule: evaluate_solution_init_cases)
  case penalty
  then show ?thesis using assms by (simp add: PENALTY_def)
next
  case (raises e)
  then show ?thesis using assms by simp
next
  case (checked H x1 B1 B2 k h w1 w2)
  note t = table_lookup(2,3) [OF checked(3,4)]
  have "evaluate_solution init solution = constraints_and_volume init h (spec_table ! nat k) w1 w2"
    using checked by (rule evaluate_solution_in_bounds)
  also note constraints_and_volume_in_bounds [OF checked(6,7) t checked(9,10) checked(12,13)]
  finally have "r = PENALTY \<or> r = spec_volume h (spec_table ! nat k) w1 w2"
    using assms by (auto split: if_splits)
  moreover note spec_volume_bounds [OF checked(6,7) t checked(9,10) checked(12,13)]
  ultimately show ?thesis by (auto simp: PENALTY_def)
qed

text \<open>
  An instance of C10: the tuple \<^verbatim>\<open>(7, 6.5, 12, 2)\<close>, whose \<open>h1\<close> rounds to the even 6,
  has the volume 1152.
\<close>

theorem result_is_penalty_or_volume_witness:
  "fst (evaluate_solution init
     (PTuple [PInt 7, PFloat (Fin (13 / 2)), PInt 12, PInt 2])) = Inr 1152 \<and>
   (0::real) < 1152 \<and> (1152::real) \<le> 13536 / 10 \<and> 13536 / 10 < PENALTY"
proof -
  have e: "fst (evaluate_solution init
     (PTuple [PInt 7, PFloat (Fin (13 / 2)), PInt 12, PInt 2])) = Inr 1152"
    by (simp add: eval_defs round_half_even_def power_divide)
  show ?thesis
    using e result_is_penalty_or_volume [OF e] by (simp add: PENALTY_def)
qed

end
